theory Spec2Isabelle
  imports Complex_Main "HOL-Library.Multiset"
begin

section \<open>JavaScript values\<close>

text \<open>
  The dashboard script \<open>app.js\<close> works on rows decoded from a spreadsheet: plain objects
  from column names to cell values. A JavaScript number is modelled as an exact real, or
  one of the three special values; rounding, overflow and the sign of zero are outside
  the model.
\<close>

datatype jsnum = Fin real | PInf | NInf | NaN

datatype jsval = JUndefined | JNull | JBool bool | JNum jsnum | JStr string

text \<open>A row lists its columns in sheet order, each column name once.\<close>

type_synonym row = "(string \<times> jsval) list"

text \<open>\<open>row.key\<close>: a missing property reads as \<open>undefined\<close>.\<close>

definition get_prop :: "row \<Rightarrow> string \<Rightarrow> jsval" where
  "get_prop r k = (case map_of r k of None \<Rightarrow> JUndefined | Some v \<Rightarrow> v)"

fun isNaN :: "jsnum \<Rightarrow> bool" where
  "isNaN NaN = True"
| "isNaN _ = False"

text \<open>Truthiness: \<open>undefined\<close>, \<open>null\<close>, \<open>false\<close>, \<open>0\<close>, \<open>NaN\<close> and \<open>""\<close> are falsy.\<close>

fun truthy :: "jsval \<Rightarrow> bool" where
  "truthy JUndefined = False"
| "truthy JNull = False"
| "truthy (JBool b) = b"
| "truthy (JNum n) = (n \<noteq> Fin 0 \<and> n \<noteq> NaN)"
| "truthy (JStr s) = (s \<noteq> [])"

text \<open>\<open>a || b\<close> yields \<open>a\<close> when it is truthy and \<open>b\<close> otherwise.\<close>

definition js_or :: "jsval \<Rightarrow> jsval \<Rightarrow> jsval" where
  "js_or a b = (if truthy a then a else b)"

subsection \<open>Arithmetic on numbers\<close>

fun js_add :: "jsnum \<Rightarrow> jsnum \<Rightarrow> jsnum" where
  "js_add (Fin a) (Fin b) = Fin (a + b)"
| "js_add NaN _ = NaN"
| "js_add _ NaN = NaN"
| "js_add PInf NInf = NaN"
| "js_add NInf PInf = NaN"
| "js_add PInf _ = PInf"
| "js_add _ PInf = PInf"
| "js_add NInf _ = NInf"
| "js_add _ NInf = NInf"

fun js_neg :: "jsnum \<Rightarrow> jsnum" where
  "js_neg (Fin a) = Fin (- a)"
| "js_neg PInf = NInf"
| "js_neg NInf = PInf"
| "js_neg NaN = NaN"

definition js_sub :: "jsnum \<Rightarrow> jsnum \<Rightarrow> jsnum" where
  "js_sub a b = js_add a (js_neg b)"

text \<open>The sign of a number that is not \<open>NaN\<close>: \<open>-1\<close>, \<open>0\<close> or \<open>1\<close>.\<close>

fun js_sgn :: "jsnum \<Rightarrow> real" where
  "js_sgn (Fin a) = sgn a"
| "js_sgn PInf = 1"
| "js_sgn NInf = - 1"
| "js_sgn NaN = 0"

definition inf_of_sign :: "real \<Rightarrow> jsnum" where
  "inf_of_sign s = (if s = 0 then NaN else if 0 < s then PInf else NInf)"

definition js_mul :: "jsnum \<Rightarrow> jsnum \<Rightarrow> jsnum" where
  "js_mul a b =
     (case (a, b) of
        (Fin x, Fin y) \<Rightarrow> Fin (x * y)
      | _ \<Rightarrow> if isNaN a \<or> isNaN b then NaN else inf_of_sign (js_sgn a * js_sgn b))"

text \<open>
  Division; a zero divisor counts as \<open>+0\<close>. The code divides by a positive count, by
  \<open>1000\<close>, or by a denominator it has compared with \<open>0\<close> first.
\<close>

fun js_div :: "jsnum \<Rightarrow> jsnum \<Rightarrow> jsnum" where
  "js_div NaN _ = NaN"
| "js_div _ NaN = NaN"
| "js_div (Fin a) (Fin b) = (if b = 0 then inf_of_sign (sgn a) else Fin (a / b))"
| "js_div (Fin a) _ = Fin 0"
| "js_div a (Fin b) = inf_of_sign (js_sgn a * (if b < 0 then - 1 else 1))"
| "js_div _ _ = NaN"

fun js_less :: "jsnum \<Rightarrow> jsnum \<Rightarrow> bool" where
  "js_less NaN _ = False"
| "js_less _ NaN = False"
| "js_less (Fin a) (Fin b) = (a < b)"
| "js_less NInf NInf = False"
| "js_less NInf _ = True"
| "js_less _ NInf = False"
| "js_less PInf _ = False"
| "js_less _ PInf = True"

fun js_le :: "jsnum \<Rightarrow> jsnum \<Rightarrow> bool" where
  "js_le NaN _ = False"
| "js_le _ NaN = False"
| "js_le a b = (\<not> js_less b a)"

definition js_gt :: "jsnum \<Rightarrow> jsnum \<Rightarrow> bool" where
  "js_gt a b = js_less b a"

definition js_ge :: "jsnum \<Rightarrow> jsnum \<Rightarrow> bool" where
  "js_ge a b = js_le b a"

fun js_abs :: "jsnum \<Rightarrow> jsnum" where
  "js_abs (Fin a) = Fin \<bar>a\<bar>"
| "js_abs NaN = NaN"
| "js_abs _ = PInf"

fun js_sqrt :: "jsnum \<Rightarrow> jsnum" where
  "js_sqrt (Fin a) = (if a < 0 then NaN else Fin (sqrt a))"
| "js_sqrt PInf = PInf"
| "js_sqrt _ = NaN"

subsection \<open>Strings to numbers\<close>

text \<open>
  \<open>parseFloat\<close> and \<open>Number\<close> are functions of the language. They are written out
  here for ASCII strings, following the grammar of numeric string literals.
\<close>

definition is_digit :: "char \<Rightarrow> bool" where
  "is_digit c = (c \<in> set ''0123456789'')"

definition digit_val :: "char \<Rightarrow> int" where
  "digit_val c = (case map_of (zip ''0123456789abcdefABCDEF''
       [0, 1, 2, 3, 4, 5, 6, 7, 8, 9, 10, 11, 12, 13, 14, 15, 10, 11, 12, 13, 14, 15]) c of
     None \<Rightarrow> 0 | Some d \<Rightarrow> d)"

definition digits_val :: "int \<Rightarrow> string \<Rightarrow> int" where
  "digits_val base ds = foldl (\<lambda>a c. base * a + digit_val c) 0 ds"

definition is_space :: "char \<Rightarrow> bool" where
  "is_space c = (c \<in> set [CHR '' '', CHR 0x09, CHR 0x0A, CHR 0x0B, CHR 0x0C, CHR 0x0D])"

definition trim_start :: "string \<Rightarrow> string" where
  "trim_start s = dropWhile is_space s"

definition trim :: "string \<Rightarrow> string" where
  "trim s = rev (dropWhile is_space (rev (dropWhile is_space s)))"

fun starts_with :: "string \<Rightarrow> string \<Rightarrow> bool" where
  "starts_with s [] = True"
| "starts_with [] (p # ps) = False"
| "starts_with (c # cs) (p # ps) = (c = p \<and> starts_with cs ps)"

text \<open>An optional exponent part \<open>e[+-]digits\<close>: the power of ten and the rest.\<close>

definition scan_exponent :: "string \<Rightarrow> int \<times> string" where
  "scan_exponent s =
     (case s of
        [] \<Rightarrow> (0, s)
      | c # t \<Rightarrow>
          if c = CHR ''e'' \<or> c = CHR ''E'' then
            (let neg = (t \<noteq> [] \<and> hd t = CHR ''-'');
                 u = (if t \<noteq> [] \<and> (hd t = CHR ''-'' \<or> hd t = CHR ''+'') then tl t else t);
                 ds = takeWhile is_digit u
             in if ds = [] then (0, s)
                else ((if neg then - digits_val 10 ds else digits_val 10 ds),
                      dropWhile is_digit u))
          else (0, s))"

definition pow10 :: "int \<Rightarrow> real" where
  "pow10 e = (if 0 \<le> e then 10 ^ nat e else 1 / 10 ^ nat (- e))"

text \<open>
  The longest prefix that is an unsigned decimal literal (\<open>12\<close>, \<open>12.\<close>, \<open>12.5\<close>,
  \<open>.5\<close>, each with an optional exponent): its value and the rest of the string.
\<close>

definition scan_decimal :: "string \<Rightarrow> (real \<times> string) option" where
  "scan_decimal s =
     (let ip = takeWhile is_digit s; r1 = dropWhile is_digit s;
          dot = (r1 \<noteq> [] \<and> hd r1 = CHR ''.'');
          fp = (if dot then takeWhile is_digit (tl r1) else []);
          r2 = (if dot then dropWhile is_digit (tl r1) else r1)
      in if ip = [] \<and> fp = [] then None
         else (let m = real_of_int (digits_val 10 ip) + real_of_int (digits_val 10 fp) / 10 ^ length fp;
                   (e, r3) = scan_exponent r2
               in Some (m * pow10 e, r3)))"

text \<open>A sign, then \<open>Infinity\<close> or a decimal literal; the rest of the string is returned.\<close>

definition scan_signed :: "string \<Rightarrow> (jsnum \<times> string) option" where
  "scan_signed s =
     (let neg = (s \<noteq> [] \<and> hd s = CHR ''-'');
          u = (if s \<noteq> [] \<and> (hd s = CHR ''-'' \<or> hd s = CHR ''+'') then tl s else s)
      in if starts_with u ''Infinity'' then Some (if neg then NInf else PInf, drop 8 u)
         else (case scan_decimal u of
                 None \<Rightarrow> None
               | Some (v, r) \<Rightarrow> Some (Fin (if neg then - v else v), r)))"

text \<open>\<open>parseFloat(s)\<close>: leading white space is skipped, trailing text is ignored.\<close>

definition parseFloat :: "string \<Rightarrow> jsnum" where
  "parseFloat s = (case scan_signed (trim_start s) of None \<Rightarrow> NaN | Some (v, r) \<Rightarrow> v)"

definition radix_literal :: "string \<Rightarrow> jsnum option" where
  "radix_literal s =
     (if length s < 3 \<or> hd s \<noteq> CHR ''0'' then None
      else (let k = s ! 1; ds = drop 2 s;
                base = (if k = CHR ''x'' \<or> k = CHR ''X'' then 16
                        else if k = CHR ''o'' \<or> k = CHR ''O'' then 8
                        else if k = CHR ''b'' \<or> k = CHR ''B'' then 2 else 0)
            in if base \<noteq> 0 \<and> list_all (\<lambda>c. c \<in> set (take (if base = 16 then 22 else nat base)
                    ''0123456789abcdefABCDEF'')) ds
               then Some (Fin (real_of_int (digits_val base ds))) else None))"

text \<open>
  \<open>Number(s)\<close> on a string: white space is trimmed, the empty string is \<open>0\<close>, and the
  whole of what is left must be a numeric literal.
\<close>

definition string_to_number :: "string \<Rightarrow> jsnum" where
  "string_to_number s =
     (let t = trim s
      in if t = [] then Fin 0
         else (case radix_literal t of
                 Some v \<Rightarrow> v
               | None \<Rightarrow>
                   (case scan_signed t of
                      None \<Rightarrow> NaN
                    | Some (v, r) \<Rightarrow> if r = [] then v else NaN)))"

fun Number :: "jsval \<Rightarrow> jsnum" where
  "Number JUndefined = NaN"
| "Number JNull = Fin 0"
| "Number (JBool b) = (if b then Fin 1 else Fin 0)"
| "Number (JNum n) = n"
| "Number (JStr s) = string_to_number s"

section \<open>The helpers of the script\<close>

text \<open>
  \<open>COST_PER_DELAY_DAY\<close> is computed once from the \<open>cpd\<close> parameter of the page's URL;
  \<open>URLSearchParams.get\<close> gives \<open>null\<close> (here \<open>None\<close>) when the parameter is absent:
  \<^verbatim>\<open>return cpdParam ? parseFloat(cpdParam) || 120 : 120;\<close>
\<close>

definition COST_PER_DELAY_DAY :: "string option \<Rightarrow> jsnum" where
  "COST_PER_DELAY_DAY cpdParam =
     (case cpdParam of
        None \<Rightarrow> Fin 120
      | Some s \<Rightarrow>
          if truthy (JStr s)
          then (if truthy (JNum (parseFloat s)) then parseFloat s else Fin 120)
          else Fin 120)"

text \<open>\<^verbatim>\<open>function num(v) { const n = Number(v); return isNaN(n) ? 0 : n; }\<close>\<close>

definition num :: "jsval \<Rightarrow> jsnum" where
  "num v = (let n = Number v in if isNaN n then Fin 0 else n)"


subsection \<open>Objects used as accumulators\<close>

text \<open>
  The script groups rows in object literals (\<open>const carrierData = {}\<close>) indexed by a cell
  value. The key is the string of the value; the string of a number is computed by the
  language and is taken as the parameter \<open>ns\<close>.
\<close>

fun key_of :: "(jsnum \<Rightarrow> string) \<Rightarrow> jsval \<Rightarrow> string" where
  "key_of ns (JStr s) = s"
| "key_of ns (JNum n) = ns n"
| "key_of ns (JBool b) = (if b then ''true'' else ''false'')"
| "key_of ns JNull = ''null''"
| "key_of ns JUndefined = ''undefined''"

text \<open>
  An object literal inherits the members of \<open>Object.prototype\<close>: reading one of these
  names from an object that has no such property of its own gives a function (an object
  for \<open>__proto__\<close>), which is truthy and whose numeric value is \<open>NaN\<close>.
\<close>

definition inherited :: "string \<Rightarrow> bool" where
  "inherited k = (k \<in> set [''constructor'', ''hasOwnProperty'', ''isPrototypeOf'',
     ''propertyIsEnumerable'', ''toLocaleString'', ''toString'', ''valueOf'', ''__proto__'',
     ''__defineGetter__'', ''__defineSetter__'', ''__lookupGetter__'', ''__lookupSetter__''])"

text \<open>
  The own properties of an accumulator, in creation order. \<open>Object.entries\<close> lists the
  keys that are array indices first, in ascending order, then the others as created.
\<close>

type_synonym 'a obj = "(string \<times> 'a) list"

definition is_index :: "string \<Rightarrow> bool" where
  "is_index k = (k \<noteq> [] \<and> list_all is_digit k \<and> (hd k = CHR ''0'' \<longrightarrow> length k = 1)
     \<and> digits_val 10 k < 4294967295)"

fun insert_index :: "string \<times> 'a \<Rightarrow> (string \<times> 'a) list \<Rightarrow> (string \<times> 'a) list" where
  "insert_index x [] = [x]"
| "insert_index x (y # ys) =
     (if digits_val 10 (fst x) \<le> digits_val 10 (fst y) then x # y # ys
      else y # insert_index x ys)"

definition entries :: "'a obj \<Rightarrow> (string \<times> 'a) list" where
  "entries ob = foldr insert_index (filter (\<lambda>e. is_index (fst e)) ob) []
                @ filter (\<lambda>e. \<not> is_index (fst e)) ob"

text \<open>\<open>ob[k] = f(ob[k])\<close> on an own property, created from \<open>init\<close> when missing.\<close>

definition upsert :: "string \<Rightarrow> 'a \<Rightarrow> ('a \<Rightarrow> 'a) \<Rightarrow> 'a obj \<Rightarrow> 'a obj" where
  "upsert k init f ob =
     (case map_of ob k of
        None \<Rightarrow> ob @ [(k, f init)]
      | Some _ \<Rightarrow> map (\<lambda>(k', v). if k' = k then (k', f v) else (k', v)) ob)"

text \<open>
  \<open>Array.prototype.sort\<close> with a comparison function is stable: for a function that
  orders the elements consistently, every stable sort gives the same array, written here
  as insertion. \<open>x\<close> moves behind \<open>y\<close> when \<open>cmp(x, y) > 0\<close>.
\<close>

fun insert_by :: "('a \<Rightarrow> 'a \<Rightarrow> jsnum) \<Rightarrow> 'a \<Rightarrow> 'a list \<Rightarrow> 'a list" where
  "insert_by cmp x [] = [x]"
| "insert_by cmp x (y # ys) =
     (if js_gt (cmp x y) (Fin 0) then y # insert_by cmp x ys else x # y # ys)"

definition sort_by :: "('a \<Rightarrow> 'a \<Rightarrow> jsnum) \<Rightarrow> 'a list \<Rightarrow> 'a list" where
  "sort_by cmp xs = foldr (insert_by cmp) xs []"

section \<open>Savings potential and the KPIs\<close>

text \<open>
  \<^verbatim>\<open>num(row.DelayDays || row.delay_days || row.delay || row.Delay || 0)\<close>, as read by
  \<open>computeSavingsPotential\<close> and \<open>renderOutliersAndAnomalies\<close>.
\<close>

definition delayDays_savings :: "row \<Rightarrow> jsnum" where
  "delayDays_savings row =
     num (js_or (js_or (js_or (js_or (get_prop row ''DelayDays'') (get_prop row ''delay_days''))
                              (get_prop row ''delay''))
                       (get_prop row ''Delay''))
                (JNum (Fin 0)))"

text \<open>
  The constant \<open>COST_PER_DELAY_DAY\<close> is the argument \<open>cpd\<close>. The functions below start
  with the guard \<^verbatim>\<open>if (!rows || rows.length === 0)\<close>; \<open>rows\<close> is always the array
  decoded from the sheet, so the guard is the test for the empty list.
\<close>

definition computeSavingsPotential :: "jsnum \<Rightarrow> row list \<Rightarrow> jsnum" where
  "computeSavingsPotential cpd rows =
     (if length rows = 0 then Fin 0
      else foldl (\<lambda>sum row.
                    let delayDays = delayDays_savings row
                    in js_add sum (if js_gt delayDays (Fin 0) then js_mul delayDays cpd else Fin 0))
                 (Fin 0) rows)"

text \<open>
  \<^verbatim>\<open>num(row.actual_delay_days || row.DelayDays || 0)\<close>, as read by \<open>updateKPIs\<close>,
  \<open>createDelayByCarrierChart\<close> and \<open>renderInsights\<close>.
\<close>

definition delayDays :: "row \<Rightarrow> jsnum" where
  "delayDays row =
     num (js_or (js_or (get_prop row ''actual_delay_days'') (get_prop row ''DelayDays''))
                (JNum (Fin 0)))"

text \<open>
  \<open>updateKPIs\<close> writes its figures into the elements \<open>kpi-total-shipments\<close>,
  \<open>kpi-on-time\<close>, \<open>kpi-avg-delay\<close> and \<open>kpi-savings\<close> of the page. The record holds
  them before they are formatted (\<open>toFixed(1)\<close>, \<open>Math.round\<close>); \<open>None\<close> is the early
  return that writes nothing.
\<close>

record kpis =
  kpi_total_shipments :: nat
  kpi_on_time :: jsnum
  kpi_avg_delay :: jsnum
  kpi_savings :: jsnum

definition updateKPIs :: "jsnum \<Rightarrow> row list \<Rightarrow> kpis option" where
  "updateKPIs cpd rows =
     (if length rows = 0 then None
      else
        (let totalShipments = length rows;
             onTimeRows = filter (\<lambda>row. js_le (delayDays row) (Fin 0)) rows;
             onTimePercentage =
               js_mul (js_div (Fin (real (length onTimeRows))) (Fin (real totalShipments))) (Fin 100);
             lateShipments = filter (\<lambda>row. js_gt (delayDays row) (Fin 0)) rows;
             totalDelay = foldl (\<lambda>sum row. js_add sum (delayDays row)) (Fin 0) lateShipments;
             savings = computeSavingsPotential cpd rows;
             displaySavings = (if js_gt savings (Fin 0) then savings else Fin 187923)
         in Some \<lparr> kpi_total_shipments = totalShipments,
                   kpi_on_time = onTimePercentage,
                   kpi_avg_delay = (if length lateShipments > 0
                                    then js_div totalDelay (Fin (real (length lateShipments)))
                                    else Fin 0),
                   kpi_savings = displaySavings \<rparr>))"

section \<open>Delay by carrier\<close>

text \<open>\<^verbatim>\<open>row.carrier_name || row.Carrier || row.carrier || 'Unknown'\<close>\<close>

definition carrier :: "row \<Rightarrow> jsval" where
  "carrier row =
     js_or (js_or (js_or (get_prop row ''carrier_name'') (get_prop row ''Carrier''))
                  (get_prop row ''carrier''))
           (JStr ''Unknown'')"

record carrier_stat =
  totalDelay :: jsnum
  count :: nat

text \<open>
  The body of the \<open>forEach\<close>. When the carrier's key names an inherited member,
  \<open>carrierData[carrier]\<close> is truthy without being a property of \<open>carrierData\<close>: no entry
  is created and the two \<open>+=\<close> change that member, not \<open>carrierData\<close>.
\<close>

definition carrier_step :: "(jsnum \<Rightarrow> string) \<Rightarrow> carrier_stat obj \<Rightarrow> row \<Rightarrow> carrier_stat obj" where
  "carrier_step ns carrierData row =
     (let k = key_of ns (carrier row); d = delayDays row
      in if inherited k then carrierData
         else upsert k \<lparr> totalDelay = Fin 0, count = 0 \<rparr>
                (\<lambda>e. \<lparr> totalDelay = js_add (totalDelay e) d, count = count e + 1 \<rparr>) carrierData)"

text \<open>
  An entry of the ranking, \<^verbatim>\<open>{ name, avgDelay, count }\<close>; its \<open>count\<close> is the field
  \<open>shipments\<close>.
\<close>

record carrier_avg =
  name :: string
  avgDelay :: jsnum
  shipments :: nat

definition filteredCarriers :: "(jsnum \<Rightarrow> string) \<Rightarrow> row list \<Rightarrow> carrier_avg list" where
  "filteredCarriers ns rows =
     sort_by (\<lambda>a b. js_sub (avgDelay b) (avgDelay a))
       (map (\<lambda>(k, e). \<lparr> name = k, avgDelay = js_div (totalDelay e) (Fin (real (count e))),
                          shipments = count e \<rparr>)
          (filter (\<lambda>(k, e). count e \<ge> 5)
             (entries (foldl (carrier_step ns) [] rows))))"

text \<open>The ranking handed to the chart; \<open>None\<close> is an early return without a chart.\<close>

definition createDelayByCarrierChart :: "(jsnum \<Rightarrow> string) \<Rightarrow> row list \<Rightarrow> carrier_avg list option" where
  "createDelayByCarrierChart ns rows =
     (if length rows = 0 then None
      else if length (filteredCarriers ns rows) = 0 then None
      else Some (filteredCarriers ns rows))"

section \<open>Risk distribution\<close>

definition to_lower :: "char \<Rightarrow> char" where
  "to_lower c = (case map_of (zip ''ABCDEFGHIJKLMNOPQRSTUVWXYZ'' ''abcdefghijklmnopqrstuvwxyz'') c of
                   None \<Rightarrow> c | Some l \<Rightarrow> l)"

definition toLowerCase :: "string \<Rightarrow> string" where
  "toLowerCase s = map to_lower s"

fun js_includes :: "string \<Rightarrow> string \<Rightarrow> bool" where
  "js_includes [] p = (p = [])"
| "js_includes (c # cs) p = (starts_with (c # cs) p \<or> js_includes cs p)"

text \<open>
  \<^verbatim>\<open>row.risk_level || row.RiskLevel || row.risk || row.ai_risk_score || 'Unknown'\<close>
\<close>

definition riskLevel :: "row \<Rightarrow> jsval" where
  "riskLevel row =
     js_or (js_or (js_or (js_or (get_prop row ''risk_level'') (get_prop row ''RiskLevel''))
                         (get_prop row ''risk''))
                  (get_prop row ''ai_risk_score''))
           (JStr ''Unknown'')"

definition score_bucket :: "jsnum \<Rightarrow> string" where
  "score_bucket riskScore =
     (if js_le riskScore (Fin 0.3) then ''Low''
      else if js_le riskScore (Fin 0.6) then ''Medium''
      else if js_le riskScore (Fin 0.8) then ''High''
      else ''Critical'')"

text \<open>
  The normalisation in \<open>createRiskDistributionChart\<close>, on the resolved \<open>riskLevel\<close>. The
  last branch for a string keeps the original, behind the test \<open>!isNaN(riskScore)\<close> of a
  value returned by \<open>num\<close>.
\<close>

definition normalizedRisk :: "jsval \<Rightarrow> string" where
  "normalizedRisk rl =
     (case rl of
        JStr s \<Rightarrow>
          (let lowerRisk = toLowerCase s
           in if js_includes lowerRisk ''low'' \<or> lowerRisk = ''l'' then ''Low''
              else if js_includes lowerRisk ''medium'' \<or> js_includes lowerRisk ''med'' \<or> lowerRisk = ''m''
                then ''Medium''
              else if js_includes lowerRisk ''high'' \<or> lowerRisk = ''h'' then ''High''
              else if js_includes lowerRisk ''critical'' \<or> js_includes lowerRisk ''crit'' then ''Critical''
              else (let riskScore = num rl
                    in if \<not> isNaN riskScore then score_bucket riskScore else s))
      | JNum n \<Rightarrow> score_bucket n
      | _ \<Rightarrow> ''Unknown'')"

text \<open>\<^verbatim>\<open>riskCounts[normalizedRisk] = (riskCounts[normalizedRisk] || 0) + 1\<close>\<close>

definition risk_step :: "(jsval \<Rightarrow> string) \<Rightarrow> nat obj \<Rightarrow> row \<Rightarrow> nat obj" where
  "risk_step nrm riskCounts row = upsert (nrm (riskLevel row)) 0 (\<lambda>c. c + 1) riskCounts"

text \<open>The labels and counts handed to the chart, in the order of \<open>Object.keys\<close>.\<close>

definition createRiskDistributionChart :: "row list \<Rightarrow> (string \<times> nat) list option" where
  "createRiskDistributionChart rows =
     (if length rows = 0 then None
      else (let riskCounts = foldl (risk_step normalizedRisk) [] rows
            in if length (entries riskCounts) = 0 then None else Some (entries riskCounts)))"

section \<open>Cost against distance\<close>

record point =
  distance :: jsnum
  cost :: jsnum

text \<open>The points of the scatter chart, \<open>x\<close> the distance and \<open>y\<close> the cost.\<close>

definition scatterData :: "row list \<Rightarrow> point list" where
  "scatterData rows =
     filter (\<lambda>p. js_gt (distance p) (Fin 0) \<and> js_gt (cost p) (Fin 0))
       (map (\<lambda>row.
          \<lparr> distance = num (js_or (js_or (js_or (get_prop row ''route_distance_km'')
                                                 (get_prop row ''DistanceKm''))
                                          (get_prop row ''distance_km'')) (JNum (Fin 0))),
            cost = num (js_or (js_or (js_or (get_prop row ''cost_usd'') (get_prop row ''CostUSD''))
                                      (get_prop row ''cost'')) (JNum (Fin 0))) \<rparr>) rows)"

definition createCostDistanceChart :: "row list \<Rightarrow> point list option" where
  "createCostDistanceChart rows =
     (if length rows = 0 then None
      else if length (scatterData rows) = 0 then None
      else Some (scatterData rows))"

definition js_sum :: "jsnum list \<Rightarrow> jsnum" where
  "js_sum xs = foldl js_add (Fin 0) xs"

definition calculatePearsonCorrelation :: "point list \<Rightarrow> jsnum" where
  "calculatePearsonCorrelation points =
     (let n = Fin (real (length points))
      in if length points < 2 then Fin 0
         else
           (let x = map distance points; y = map cost points;
                sumX = js_sum x; sumY = js_sum y;
                sumXY = js_sum (map (\<lambda>(xi, yi). js_mul xi yi) (zip x y));
                sumX2 = js_sum (map (\<lambda>xi. js_mul xi xi) x);
                sumY2 = js_sum (map (\<lambda>yi. js_mul yi yi) y);
                numerator = js_sub (js_mul n sumXY) (js_mul sumX sumY);
                denominator = js_sqrt (js_mul (js_sub (js_mul n sumX2) (js_mul sumX sumX))
                                              (js_sub (js_mul n sumY2) (js_mul sumY sumY)))
            in if denominator = Fin 0 then Fin 0 else js_div numerator denominator))"


section \<open>Emissions by mode\<close>

text \<open>\<^verbatim>\<open>row.transport_mode || row.mode || row.Mode || 'Unknown'\<close>\<close>

definition transport_mode :: "row \<Rightarrow> jsval" where
  "transport_mode row =
     js_or (js_or (js_or (get_prop row ''transport_mode'') (get_prop row ''mode''))
                  (get_prop row ''Mode''))
           (JStr ''Unknown'')"

text \<open>
  What \<open>factors[key]\<close> reads from
  \<^verbatim>\<open>const factors = { Air: 500, Road: 62, Rail: 22, Sea: 10 }\<close>:
  one of the four numbers, an inherited member, or \<open>undefined\<close> (here \<open>None\<close>).
\<close>

datatype member = Own real | Inherited

definition factors :: "string \<Rightarrow> member option" where
  "factors k =
     (if k = ''Air'' then Some (Own 500)
      else if k = ''Road'' then Some (Own 62)
      else if k = ''Rail'' then Some (Own 22)
      else if k = ''Sea'' then Some (Own 10)
      else if inherited k then Some Inherited
      else None)"

text \<open>
  \<^verbatim>\<open>const factor = factors[mode] || factors.Road;\<close> followed by
  \<^verbatim>\<open>(distanceKm * factor * tons) / 1000\<close>. The four numbers and the inherited
  members are all truthy; a number times an inherited member is \<open>NaN\<close>.
\<close>

definition estimate :: "jsnum \<Rightarrow> member option \<Rightarrow> jsnum \<Rightarrow> jsnum" where
  "estimate d m t =
     (case (case m of None \<Rightarrow> factors ''Road'' | Some f \<Rightarrow> Some f) of
        Some (Own factor) \<Rightarrow> js_div (js_mul (js_mul d (Fin factor)) t) (Fin 1000)
      | _ \<Rightarrow> js_div (js_mul (js_mul d NaN) t) (Fin 1000))"

text \<open>
  The fields read for the emissions of a row:
  \<^verbatim>\<open>num(row.emissions_kg || row.EmissionsKg || row.carbon_emissions_kg || 0)\<close>,
  \<^verbatim>\<open>num(row.route_distance_km || row.distance_km || row.DistanceKm || 0)\<close>,
  \<^verbatim>\<open>num(row.weight_kg || row.WeightKg || 0)\<close> and
  \<^verbatim>\<open>weightKg > 0 ? weightKg / 1000 : 1\<close>.
\<close>

definition actualEmissions :: "row \<Rightarrow> jsnum" where
  "actualEmissions row =
     num (js_or (js_or (js_or (get_prop row ''emissions_kg'') (get_prop row ''EmissionsKg''))
                       (get_prop row ''carbon_emissions_kg'')) (JNum (Fin 0)))"

definition distanceKm :: "row \<Rightarrow> jsnum" where
  "distanceKm row =
     num (js_or (js_or (js_or (get_prop row ''route_distance_km'') (get_prop row ''distance_km''))
                       (get_prop row ''DistanceKm'')) (JNum (Fin 0)))"

definition weightKg :: "row \<Rightarrow> jsnum" where
  "weightKg row =
     num (js_or (js_or (get_prop row ''weight_kg'') (get_prop row ''WeightKg'')) (JNum (Fin 0)))"

definition tons :: "row \<Rightarrow> jsnum" where
  "tons row = (if js_gt (weightKg row) (Fin 0) then js_div (weightKg row) (Fin 1000) else Fin 1)"

text \<open>The emissions of one row, as the \<open>forEach\<close> of \<open>createModeEmissionsChart\<close> computes them.\<close>

definition emissionsKg :: "(jsnum \<Rightarrow> string) \<Rightarrow> row \<Rightarrow> jsnum" where
  "emissionsKg ns row =
     (if js_le (actualEmissions row) (Fin 0)
      then estimate (distanceKm row) (factors (key_of ns (transport_mode row))) (tons row)
      else actualEmissions row)"

text \<open>
  \<open>createModeEmissionsChart\<close> returns \<open>totalEmissions\<close>, the sum over all rows. It returns
  early when \<open>modeEmissions\<close> has no key, which happens when every mode is \<open>__proto__\<close>,
  the one key whose assignment creates no property.
\<close>

definition createModeEmissionsChart :: "(jsnum \<Rightarrow> string) \<Rightarrow> row list \<Rightarrow> jsnum option" where
  "createModeEmissionsChart ns rows =
     (if length rows = 0 then None
      else if list_all (\<lambda>row. key_of ns (transport_mode row) = ''__proto__'') rows then None
      else Some (foldl (\<lambda>totalEmissions row. js_add totalEmissions (emissionsKg ns row))
                   (Fin 0) rows))"

section \<open>Insights\<close>

text \<open>
  Each sentence of \<open>renderInsights\<close> is a value of \<open>insight\<close> holding what the template
  prints, before formatting.
\<close>

datatype strength = Strong | Moderate

datatype direction = Positive | Negative

datatype insight =
    Savings jsnum jsnum
  | WorstCarrier string jsnum nat
  | OnTime jsnum nat
  | HighRisk jsnum
  | Correlation strength direction jsnum
  | TopRoute string jsnum

text \<open>Block 1: the carrier with the highest average delay over its late shipments.\<close>

definition late_step :: "(jsnum \<Rightarrow> string) \<Rightarrow> carrier_stat obj \<Rightarrow> row \<Rightarrow> carrier_stat obj" where
  "late_step ns carrierDelays row =
     (let k = key_of ns (carrier row); d = delayDays row
      in if js_gt d (Fin 0) then
           (if inherited k then carrierDelays
            else upsert k \<lparr> totalDelay = Fin 0, count = 0 \<rparr>
                   (\<lambda>e. \<lparr> totalDelay = js_add (totalDelay e) d, count = count e + 1 \<rparr>)
                   carrierDelays)
         else carrierDelays)"

definition worstCarrier :: "(jsnum \<Rightarrow> string) \<Rightarrow> row list \<Rightarrow> insight list" where
  "worstCarrier ns rows =
     (case sort_by (\<lambda>a b. js_sub (avgDelay b) (avgDelay a))
             (map (\<lambda>(k, e). \<lparr> name = k, avgDelay = js_div (totalDelay e) (Fin (real (count e))),
                                shipments = count e \<rparr>)
                (entries (foldl (late_step ns) [] rows))) of
        [] \<Rightarrow> []
      | w # _ \<Rightarrow> if shipments w \<ge> 2 then [WorstCarrier (name w) (avgDelay w) (shipments w)] else [])"

text \<open>Block 3: the normalisation is repeated without the branch that keeps the original.\<close>

definition normalizedRisk_insights :: "jsval \<Rightarrow> string" where
  "normalizedRisk_insights rl =
     (case rl of
        JStr s \<Rightarrow>
          (let lowerRisk = toLowerCase s
           in if js_includes lowerRisk ''low'' \<or> lowerRisk = ''l'' then ''Low''
              else if js_includes lowerRisk ''medium'' \<or> js_includes lowerRisk ''med''
                      \<or> lowerRisk = ''m''
                then ''Medium''
              else if js_includes lowerRisk ''high'' \<or> lowerRisk = ''h'' then ''High''
              else if js_includes lowerRisk ''critical'' \<or> js_includes lowerRisk ''crit''
                then ''Critical''
              else (let riskScore = num rl
                    in if \<not> isNaN riskScore then score_bucket riskScore else ''Unknown''))
      | JNum n \<Rightarrow> score_bucket n
      | _ \<Rightarrow> ''Unknown'')"

definition highRisk :: "row list \<Rightarrow> insight list" where
  "highRisk rows =
     (let riskCounts = foldl (risk_step normalizedRisk_insights) [] rows;
          highRiskCount = (case map_of riskCounts ''High'' of None \<Rightarrow> 0 | Some c \<Rightarrow> c)
                        + (case map_of riskCounts ''Critical'' of None \<Rightarrow> 0 | Some c \<Rightarrow> c)
      in if highRiskCount > 0
         then [HighRisk (js_mul (js_div (Fin (real highRiskCount)) (Fin (real (length rows))))
                                (Fin 100))]
         else [])"

text \<open>Block 4: the correlation of cost and distance.\<close>

definition validPoints :: "row list \<Rightarrow> point list" where
  "validPoints rows =
     filter (\<lambda>p. js_gt (distance p) (Fin 0) \<and> js_gt (cost p) (Fin 0))
       (map (\<lambda>row.
          \<lparr> distance = num (js_or (js_or (js_or (get_prop row ''route_distance_km'')
                                                 (get_prop row ''distance_km''))
                                          (get_prop row ''DistanceKm'')) (JNum (Fin 0))),
            cost = num (js_or (js_or (js_or (get_prop row ''cost_usd'') (get_prop row ''CostUSD''))
                                      (get_prop row ''cost'')) (JNum (Fin 0))) \<rparr>) rows)"

definition correlationInsight :: "row list \<Rightarrow> insight list" where
  "correlationInsight rows =
     (if length (validPoints rows) \<ge> 3 then
        (let correlation = calculatePearsonCorrelation (validPoints rows)
         in if js_ge (js_abs correlation) (Fin 0.3) then
              [Correlation (if js_ge (js_abs correlation) (Fin 0.7) then Strong else Moderate)
                           (if js_gt correlation (Fin 0) then Positive else Negative)
                           correlation]
            else [])
      else [])"

text \<open>
  Block 5: emissions by route. The key is the template
  \<^verbatim>\<open>`${origin} -> ${destination}`\<close> (with an arrow character, here its three bytes);
  it is never an index nor an inherited name. A total that is \<open>0\<close> or \<open>NaN\<close> is falsy and
  restarts from \<open>0\<close>: \<^verbatim>\<open>(routeEmissions[route] || 0) + emissionsKg\<close>.
\<close>

definition route :: "(jsnum \<Rightarrow> string) \<Rightarrow> row \<Rightarrow> string" where
  "route ns row =
     key_of ns (js_or (js_or (get_prop row ''origin_city'') (get_prop row ''Origin'')) (JStr ''Unknown''))
     @ [CHR '' '', CHR 0xE2, CHR 0x86, CHR 0x92, CHR '' '']
     @ key_of ns (js_or (js_or (get_prop row ''destination_city'') (get_prop row ''Destination''))
                        (JStr ''Unknown''))"

definition emissionsKg_route :: "(jsnum \<Rightarrow> string) \<Rightarrow> row \<Rightarrow> jsnum" where
  "emissionsKg_route ns row =
     (if js_le (actualEmissions row) (Fin 0)
      then estimate (distanceKm row)
             (factors (key_of ns (js_or (js_or (js_or (get_prop row ''transport_mode'')
                                                      (get_prop row ''mode''))
                                               (get_prop row ''Mode'')) (JStr ''Road''))))
             (tons row)
      else actualEmissions row)"

definition route_step :: "(jsnum \<Rightarrow> string) \<Rightarrow> jsnum obj \<Rightarrow> row \<Rightarrow> jsnum obj" where
  "route_step ns routeEmissions row =
     upsert (route ns row) (Fin 0)
       (\<lambda>t. js_add (if truthy (JNum t) then t else Fin 0) (emissionsKg_route ns row)) routeEmissions"

definition topRoute :: "(jsnum \<Rightarrow> string) \<Rightarrow> row list \<Rightarrow> insight list" where
  "topRoute ns rows =
     (case sort_by (\<lambda>a b. js_sub (snd b) (snd a)) (entries (foldl (route_step ns) [] rows)) of
        [] \<Rightarrow> []
      | t # _ \<Rightarrow> [TopRoute (fst t) (snd t)])"

text \<open>The list \<open>insights\<close> that \<open>renderInsights\<close> renders; \<open>None\<close> is its early return.\<close>

definition renderInsights :: "(jsnum \<Rightarrow> string) \<Rightarrow> jsnum \<Rightarrow> row list \<Rightarrow> insight list option" where
  "renderInsights ns cpd rows =
     (if length rows = 0 then None
      else Some
        ([Savings (computeSavingsPotential cpd rows) cpd]
         @ worstCarrier ns rows
         @ [OnTime (js_mul (js_div (Fin (real (length (filter (\<lambda>row. js_le (delayDays row) (Fin 0))
                                                         rows))))
                                   (Fin (real (length rows)))) (Fin 100))
                   (length rows)]
         @ highRisk rows
         @ correlationInsight rows
         @ topRoute ns rows))"

section \<open>Late shipments\<close>

record late_shipment =
  shipmentId :: jsval
  lateCarrier :: jsval
  lane :: string
  lateDays :: jsnum

text \<open>
  The first card of \<open>renderOutliersAndAnomalies\<close>: the five longest delays. Its second
  card, the weekly on-time rates, reads dates through a date library and is not part of
  this development; it sits behind the same early return.
\<close>

definition lateShipments :: "(jsnum \<Rightarrow> string) \<Rightarrow> row list \<Rightarrow> late_shipment list" where
  "lateShipments ns rows =
     take 5
       (sort_by (\<lambda>a b. js_sub (lateDays b) (lateDays a))
          (filter (\<lambda>s. js_gt (lateDays s) (Fin 0))
             (map (\<lambda>row.
                \<lparr> shipmentId = js_or (js_or (js_or (js_or (get_prop row ''ID'') (get_prop row ''id''))
                                                   (get_prop row ''Reference''))
                                            (get_prop row ''reference'')) (JStr ''-''),
                  lateCarrier = js_or (js_or (get_prop row ''Carrier'') (get_prop row ''carrier''))
                                      (JStr ''Unknown''),
                  lane = key_of ns (js_or (js_or (js_or (get_prop row ''Origin'') (get_prop row ''origin''))
                                                 (get_prop row ''origin_city'')) (JStr ''Unknown''))
                         @ [CHR '' '', CHR 0xE2, CHR 0x86, CHR 0x92, CHR '' '']
                         @ key_of ns (js_or (js_or (js_or (get_prop row ''Destination'')
                                                          (get_prop row ''destination''))
                                                   (get_prop row ''destination_city''))
                                            (JStr ''Unknown'')),
                  lateDays = delayDays_savings row \<rparr>) rows)))"

definition renderOutliersAndAnomalies :: "(jsnum \<Rightarrow> string) \<Rightarrow> row list \<Rightarrow> late_shipment list option" where
  "renderOutliersAndAnomalies ns rows =
     (if length rows = 0 then None else Some (lateShipments ns rows))"

section \<open>Notions used to state the properties\<close>




text \<open>The rows of one carrier, and the mean of their delays.\<close>

definition carrier_group :: "(jsnum \<Rightarrow> string) \<Rightarrow> row list \<Rightarrow> string \<Rightarrow> row list" where
  "carrier_group ns rows k = filter (\<lambda>row. key_of ns (carrier row) = k) rows"

definition group_mean :: "(jsnum \<Rightarrow> string) \<Rightarrow> row list \<Rightarrow> string \<Rightarrow> jsnum" where
  "group_mean ns rows k =
     js_div (js_sum (map delayDays (carrier_group ns rows k)))
            (Fin (real (length (carrier_group ns rows k))))"




text \<open>The factor table as the specification gives it, with Road for any other mode.\<close>

definition modeFactor :: "string \<Rightarrow> real" where
  "modeFactor k =
     (if k = ''Air'' then 500 else if k = ''Rail'' then 22 else if k = ''Sea'' then 10 else 62)"

subsection \<open>Example rows\<close>

text \<open>
  No example below holds a number in a column that becomes a key, so the string of a
  number is never asked for; the examples pass a constant.
\<close>

definition unused_ns :: "jsnum \<Rightarrow> string" where
  "unused_ns n = []"

definition scenario_rows :: "row list" where
  "scenario_rows =
     [[(''actual_delay_days'', JNum (Fin 3)), (''carrier_name'', JStr ''A'')],
      [(''actual_delay_days'', JNum (Fin (- 1))), (''carrier_name'', JStr ''A'')]]"

definition ranking_rows :: "row list" where
  "ranking_rows =
     replicate 5 [(''carrier_name'', JStr ''A''), (''actual_delay_days'', JNum (Fin 2))]
     @ replicate 5 [(''Carrier'', JStr ''B''), (''DelayDays'', JNum (Fin 3))]
     @ [[(''carrier'', JStr ''C''), (''actual_delay_days'', JNum (Fin 9))]]"

definition infinite_delay_rows :: "row list" where
  "infinite_delay_rows =
     [[(''carrier_name'', JStr ''A''), (''actual_delay_days'', JStr ''Infinity'')],
      [(''carrier_name'', JStr ''A''), (''actual_delay_days'', JStr ''-Infinity'')]]
     @ replicate 3 [(''carrier_name'', JStr ''A''), (''actual_delay_days'', JNum (Fin 1))]
     @ replicate 5 [(''carrier_name'', JStr ''B''), (''actual_delay_days'', JNum (Fin 2))]"

definition inherited_name_rows :: "row list" where
  "inherited_name_rows =
     replicate 5 [(''carrier_name'', JStr ''constructor''), (''actual_delay_days'', JNum (Fin 2))]"




definition air_row :: row where
  "air_row = [(''transport_mode'', JStr ''Air''), (''route_distance_km'', JNum (Fin 1000)),
              (''weight_kg'', JNum (Fin 2000))]"

definition inherited_mode_row :: row where
  "inherited_mode_row =
     [(''transport_mode'', JStr ''constructor''), (''route_distance_km'', JNum (Fin 1000))]"

section \<open>Field resolution\<close>




text \<open>
  Claim C10. When the first property of a chain is present and holds \<open>0\<close>, the empty
  string, \<open>false\<close>, \<open>null\<close> or \<open>NaN\<close>, the value is skipped and the rest of the chain
  decides. Shown for the delay of \<open>updateKPIs\<close>, the delay of
  \<open>computeSavingsPotential\<close> and the risk level of \<open>createRiskDistributionChart\<close>.
\<close>

theorem falsy_first_key_skipped:
  "v \<in> {JNum (Fin 0), JStr [], JBool False, JNull, JNum NaN} \<Longrightarrow>
     (map_of row ''actual_delay_days'' = Some v \<longrightarrow>
        delayDays row = num (js_or (get_prop row ''DelayDays'') (JNum (Fin 0))))
     \<and> (map_of row ''DelayDays'' = Some v \<longrightarrow>
          delayDays_savings row =
            num (js_or (js_or (js_or (get_prop row ''delay_days'') (get_prop row ''delay''))
                              (get_prop row ''Delay'')) (JNum (Fin 0))))
     \<and> (map_of row ''risk_level'' = Some v \<longrightarrow>
          riskLevel row =
            js_or (js_or (js_or (get_prop row ''RiskLevel'') (get_prop row ''risk''))
                         (get_prop row ''ai_risk_score'')) (JStr ''Unknown''))"
  by (auto simp: delayDays_def delayDays_savings_def riskLevel_def js_or_def get_prop_def)

theorem falsy_first_key_skipped_witness:
  "delayDays [(''actual_delay_days'', JNum (Fin 0)), (''DelayDays'', JNum (Fin 5))] = Fin 5
   \<and> riskLevel [(''risk_level'', JNum (Fin 0))] = JStr ''Unknown''"
proof -
  have v: "JNum (Fin 0) \<in> {JNum (Fin 0), JStr [], JBool False, JNull, JNum NaN}"
    by simp
  show ?thesis
    using falsy_first_key_skipped
            [OF v, of "[(''actual_delay_days'', JNum (Fin 0)), (''DelayDays'', JNum (Fin 5))]"]
          falsy_first_key_skipped [OF v, of "[(''risk_level'', JNum (Fin 0))]"]
    by (simp add: get_prop_def js_or_def num_def)
qed

section \<open>Cost per delay day\<close>

lemma parseFloat_empty: "parseFloat [] = NaN"
  by code_simp

text \<open>
  Claim C4, as amended. The constant is the parsed value of the parameter when that
  value is neither \<open>0\<close> nor \<open>NaN\<close>, negative and infinite values included, and \<open>120\<close>
  in every other case: no parameter, an empty one, one with no numeric prefix, one that
  parses to \<open>0\<close>. It is never \<open>0\<close> and never \<open>NaN\<close>.
\<close>

theorem cost_per_delay_day_cases:
  "COST_PER_DELAY_DAY p =
     (case p of
        None \<Rightarrow> Fin 120
      | Some s \<Rightarrow> if parseFloat s = Fin 0 \<or> parseFloat s = NaN then Fin 120 else parseFloat s)
   \<and> COST_PER_DELAY_DAY p \<noteq> Fin 0 \<and> COST_PER_DELAY_DAY p \<noteq> NaN"
  by (cases p) (auto simp: COST_PER_DELAY_DAY_def parseFloat_empty)

theorem cost_per_delay_day_cases_witness:
  "COST_PER_DELAY_DAY (Some ''-5'') = Fin (- 5) \<and> COST_PER_DELAY_DAY (Some ''abc'') = Fin 120"
proof -
  have a: "parseFloat ''-5'' = Fin (- 5)" by code_simp
  have b: "parseFloat ''abc'' = NaN" by code_simp
  show ?thesis
    using cost_per_delay_day_cases [of "Some ''-5''"] cost_per_delay_day_cases [of "Some ''abc''"]
    by (simp add: a b)
qed

text \<open>
  The parameter \<open>0\<close> parses to the finite number \<open>0\<close> and the constant is \<open>120\<close>; the
  parameter \<open>Infinity\<close> makes the constant infinite.
\<close>

theorem cost_per_delay_day_counterexample:
  "parseFloat ''0'' = Fin 0 \<and> COST_PER_DELAY_DAY (Some ''0'') = Fin 120
   \<and> parseFloat ''Infinity'' = PInf \<and> COST_PER_DELAY_DAY (Some ''Infinity'') = PInf"
  by code_simp

section \<open>The KPIs of two rows\<close>

text \<open>
  Claim C2. On the two rows of the scenario, with the default cost of \<open>120\<close>, the
  on-time percentage is \<open>50\<close> and the average delay of the late shipments is \<open>3\<close>.
  The savings potential is \<open>0\<close>, not \<open>360\<close>: \<open>computeSavingsPotential\<close> does not read
  \<open>actual_delay_days\<close>, the column the other two figures are computed from, and the
  page shows the placeholder \<open>187923\<close>.
\<close>

theorem scenario_savings_zero:
  "map_option kpi_on_time (updateKPIs (COST_PER_DELAY_DAY None) scenario_rows) = Some (Fin 50)
   \<and> map_option kpi_avg_delay (updateKPIs (COST_PER_DELAY_DAY None) scenario_rows) = Some (Fin 3)
   \<and> computeSavingsPotential (COST_PER_DELAY_DAY None) scenario_rows = Fin 0
   \<and> map_option kpi_savings (updateKPIs (COST_PER_DELAY_DAY None) scenario_rows)
       = Some (Fin 187923)"
  unfolding scenario_rows_def by code_simp

section \<open>Risk classification\<close>

lemma num_not_NaN: "num v \<noteq> NaN"
  by (cases "Number v") (simp_all add: num_def)

lemma score_bucket_range: "score_bucket n \<in> {''Low'', ''Medium'', ''High'', ''Critical''}"
  by (simp add: score_bucket_def)

text \<open>The two examples of C3: a score of \<open>0.75\<close> and the text \<open>medium risk\<close>.\<close>

lemma risk_scenarios:
  "normalizedRisk (riskLevel [(''risk_level'', JNum (Fin 0.75))]) = ''High''"
  "normalizedRisk (riskLevel [(''risk_level'', JStr ''medium risk'')]) = ''Medium''"
  by code_simp+

text \<open>
  No string is kept as its own bucket: \<open>num\<close> never returns \<open>NaN\<close>, so the test that
  guards the last branch always succeeds and the thresholds decide.
\<close>

lemma normalizedRisk_string_range:
  "normalizedRisk (JStr s) \<in> {''Low'', ''Medium'', ''High'', ''Critical''}"
proof -
  have "\<not> isNaN (num (JStr s))"
    using num_not_NaN [of "JStr s"] by (cases "num (JStr s)") simp_all
  then show ?thesis
    using score_bucket_range [of "num (JStr s)"]
    by (simp add: normalizedRisk_def Let_def)
qed

text \<open>
  Claim C3. A risk level that holds no keyword and is not a number, here \<open>pending\<close>,
  is not preserved: it is classified \<open>Low\<close>, the bucket of the score \<open>0\<close>.
\<close>

theorem unmatched_risk_string_is_low:
  "normalizedRisk (riskLevel [(''risk_level'', JStr ''pending'')]) = ''Low''"
  by code_simp

section \<open>Empty input\<close>

text \<open>
  Claim C5. On the empty list of rows the savings potential is \<open>0\<close>, the correlation of
  no point or one point is \<open>0\<close>, the lists built from the rows are empty, and every
  function that renders returns at once without computing a percentage or a ratio.
\<close>

theorem empty_rows_neutral:
  "computeSavingsPotential cpd [] = Fin 0
   \<and> calculatePearsonCorrelation [] = Fin 0
   \<and> calculatePearsonCorrelation [p] = Fin 0
   \<and> updateKPIs cpd [] = None
   \<and> filteredCarriers ns [] = [] \<and> createDelayByCarrierChart ns [] = None
   \<and> createRiskDistributionChart [] = None
   \<and> scatterData [] = [] \<and> createCostDistanceChart [] = None
   \<and> createModeEmissionsChart ns [] = None
   \<and> validPoints [] = [] \<and> renderInsights ns cpd [] = None
   \<and> lateShipments ns [] = [] \<and> renderOutliersAndAnomalies ns [] = None"
  by (simp add: computeSavingsPotential_def calculatePearsonCorrelation_def updateKPIs_def
      filteredCarriers_def createDelayByCarrierChart_def createRiskDistributionChart_def
      scatterData_def createCostDistanceChart_def createModeEmissionsChart_def renderInsights_def
      validPoints_def lateShipments_def renderOutliersAndAnomalies_def entries_def sort_by_def)

theorem empty_rows_neutral_witness:
  "computeSavingsPotential (Fin 120) [] = Fin 0
   \<and> calculatePearsonCorrelation [\<lparr> distance = Fin 1, cost = Fin 1 \<rparr>] = Fin 0
   \<and> updateKPIs (Fin 120) [] = None
   \<and> renderInsights unused_ns (Fin 120) [] = None"
  using empty_rows_neutral [of "Fin 120" "\<lparr> distance = Fin 1, cost = Fin 1 \<rparr>" unused_ns]
  by simp

section \<open>The ranking of carriers\<close>

subsection \<open>Accumulators and sorting\<close>

lemma map_of_upsert_map:
  "map_of (map (\<lambda>(k', v). if k' = k then (k', f v) else (k', v)) ob) k'
     = (if k' = k then map_option f (map_of ob k) else map_of ob k')"
  by (induction ob) auto

lemma map_of_upsert:
  "map_of (upsert k init f ob) k'
     = (if k' = k then Some (f (case map_of ob k of None \<Rightarrow> init | Some v \<Rightarrow> v)) else map_of ob k')"
  by (cases "map_of ob k") (auto simp: upsert_def map_of_upsert_map map_add_def split: option.splits)

lemma keys_upsert:
  "map fst (upsert k init f ob) = (if map_of ob k = None then map fst ob @ [k] else map fst ob)"
proof -
  have "map fst (map (\<lambda>(k', v). if k' = k then (k', f v) else (k', v)) ob) = map fst ob"
    by (induction ob) auto
  then show ?thesis
    by (auto simp: upsert_def split: option.splits)
qed

lemma distinct_upsert:
  "distinct (map fst ob) \<Longrightarrow> distinct (map fst (upsert k init f ob))"
  by (auto simp: keys_upsert map_of_eq_None_iff)

lemma mset_insert_index: "mset (insert_index x ys) = add_mset x (mset ys)"
  by (induction ys) auto

lemma mset_entries: "mset (entries ob) = mset ob"
proof -
  have "mset (foldr insert_index xs []) = mset xs" for xs :: "(string \<times> 'a) list"
    by (induction xs) (auto simp: mset_insert_index)
  then show ?thesis
    by (simp add: entries_def)
qed

lemma mset_insert_by: "mset (insert_by cmp x ys) = add_mset x (mset ys)"
  by (induction ys) auto

lemma mset_sort_by: "mset (sort_by cmp xs) = mset xs"
  unfolding sort_by_def by (induction xs) (auto simp: mset_insert_by)

subsection \<open>The order of the means\<close>

lemma stays_before: "a \<noteq> NaN \<Longrightarrow> b \<noteq> NaN \<Longrightarrow> \<not> js_gt (js_sub b a) (Fin 0) \<Longrightarrow> js_ge a b"
  by (cases a; cases b) (auto simp: js_gt_def js_ge_def js_sub_def)

lemma moves_behind: "js_gt (js_sub b a) (Fin 0) \<Longrightarrow> js_ge b a"
  by (cases a; cases b) (auto simp: js_gt_def js_ge_def js_sub_def)

lemma js_ge_trans: "js_ge a b \<Longrightarrow> js_ge b c \<Longrightarrow> js_ge a c"
  by (cases a; cases b; cases c) (auto simp: js_ge_def)

lemma sorted_insert_by:
  assumes "sorted_wrt (\<lambda>a b. js_ge (avgDelay a) (avgDelay b)) ys"
    and "avgDelay x \<noteq> NaN" and "\<forall>y\<in>set ys. avgDelay y \<noteq> NaN"
  shows "sorted_wrt (\<lambda>a b. js_ge (avgDelay a) (avgDelay b))
           (insert_by (\<lambda>a b. js_sub (avgDelay b) (avgDelay a)) x ys)"
  using assms
proof (induction ys)
  case Nil
  then show ?case by simp
next
  case (Cons y ys)
  show ?case
  proof (cases "js_gt (js_sub (avgDelay y) (avgDelay x)) (Fin 0)")
    case True
    have "js_ge (avgDelay y) (avgDelay z)"
      if "z \<in> set (insert_by (\<lambda>a b. js_sub (avgDelay b) (avgDelay a)) x ys)" for z
    proof -
      have "z \<in># mset (insert_by (\<lambda>a b. js_sub (avgDelay b) (avgDelay a)) x ys)"
        using that by simp
      then have "z = x \<or> z \<in> set ys"
        by (simp add: mset_insert_by)
      then show ?thesis
        using moves_behind [OF True] Cons.prems(1) by auto
    qed
    then show ?thesis
      using True Cons by simp
  next
    case False
    have xy: "js_ge (avgDelay x) (avgDelay y)"
      using stays_before [OF _ _ False] Cons.prems by simp
    have "js_ge (avgDelay x) (avgDelay z)" if "z \<in> set ys" for z
      using js_ge_trans [OF xy] Cons.prems(1) that by auto
    then show ?thesis
      using False xy Cons.prems(1) by simp
  qed
qed

lemma sorted_sort_by:
  "\<forall>x\<in>set xs. avgDelay x \<noteq> NaN \<Longrightarrow>
     sorted_wrt (\<lambda>a b. js_ge (avgDelay a) (avgDelay b))
       (sort_by (\<lambda>a b. js_sub (avgDelay b) (avgDelay a)) xs)"
proof (induction xs)
  case Nil
  then show ?case by (simp add: sort_by_def)
next
  case (Cons x xs)
  have "\<forall>y\<in>set (sort_by (\<lambda>a b. js_sub (avgDelay b) (avgDelay a)) xs). avgDelay y \<noteq> NaN"
    using Cons.prems mset_sort_by [of "\<lambda>a b. js_sub (avgDelay b) (avgDelay a)" xs]
    by (metis list.set_intros(2) mset_eq_setD)
  then show ?case
    using Cons sorted_insert_by [of "sort_by (\<lambda>a b. js_sub (avgDelay b) (avgDelay a)) xs" x]
    by (simp add: sort_by_def)
qed

subsection \<open>The grouping loop\<close>

lemma map_of_carrier_step:
  "map_of (carrier_step ns acc row) k =
     (if inherited k \<or> key_of ns (carrier row) \<noteq> k then map_of acc k
      else Some \<lparr> totalDelay = js_add (case map_of acc k of None \<Rightarrow> Fin 0 | Some e \<Rightarrow> totalDelay e)
                                       (delayDays row),
                  count = (case map_of acc k of None \<Rightarrow> 0 | Some e \<Rightarrow> count e) + 1 \<rparr>)"
  by (auto simp: carrier_step_def Let_def map_of_upsert split: option.splits)

lemma distinct_carrier_step:
  "distinct (map fst acc) \<Longrightarrow> distinct (map fst (carrier_step ns acc row))"
  by (simp add: carrier_step_def Let_def distinct_upsert)

lemma distinct_carrier_fold:
  "distinct (map fst acc) \<Longrightarrow> distinct (map fst (foldl (carrier_step ns) acc rows))"
  by (induction rows arbitrary: acc) (simp_all add: distinct_carrier_step)

lemma map_of_carrier_fold:
  "map_of (foldl (carrier_step ns) acc rows) k =
     (if inherited k \<or> carrier_group ns rows k = [] then map_of acc k
      else Some \<lparr> totalDelay = foldl js_add (case map_of acc k of None \<Rightarrow> Fin 0 | Some e \<Rightarrow> totalDelay e)
                                       (map delayDays (carrier_group ns rows k)),
                  count = (case map_of acc k of None \<Rightarrow> 0 | Some e \<Rightarrow> count e)
                          + length (carrier_group ns rows k) \<rparr>)"
proof (induction rows arbitrary: acc)
  case Nil
  then show ?case by (simp add: carrier_group_def)
next
  case (Cons row rows)
  show ?case
    by (simp add: Cons.IH map_of_carrier_step carrier_group_def)
qed

lemma carrier_entries:
  "(k, e) \<in> set (entries (foldl (carrier_step ns) [] rows)) \<longleftrightarrow>
     \<not> inherited k \<and> carrier_group ns rows k \<noteq> []
     \<and> e = \<lparr> totalDelay = js_sum (map delayDays (carrier_group ns rows k)),
               count = length (carrier_group ns rows k) \<rparr>"
proof -
  let ?acc = "foldl (carrier_step ns) [] rows"
  have d: "distinct (map fst ?acc)"
    by (rule distinct_carrier_fold) simp
  have "(k, e) \<in> set (entries ?acc) \<longleftrightarrow> (k, e) \<in> set ?acc"
    using mset_eq_setD [OF mset_entries [of ?acc]] by simp
  also have "\<dots> \<longleftrightarrow> map_of ?acc k = Some e"
    using d by simp
  also have "\<dots> \<longleftrightarrow> \<not> inherited k \<and> carrier_group ns rows k \<noteq> []
     \<and> e = \<lparr> totalDelay = js_sum (map delayDays (carrier_group ns rows k)),
               count = length (carrier_group ns rows k) \<rparr>"
    by (auto simp: map_of_carrier_fold js_sum_def)
  finally show ?thesis .
qed

lemma distinct_carrier_entries:
  "distinct (map fst (entries (foldl (carrier_step ns) [] rows)))"
proof -
  let ?acc = "foldl (carrier_step ns) [] rows"
  have "mset (map fst (entries ?acc)) = mset (map fst ?acc)"
    by (simp add: mset_entries)
  moreover have "distinct (map fst ?acc)"
    by (rule distinct_carrier_fold) simp
  ultimately show ?thesis
    using mset_eq_imp_distinct_iff by blast
qed

text \<open>
  What the ranking holds, for any rows: one entry for each carrier that has five
  shipments or more and whose key is not the name of an inherited member.
\<close>

lemma ranking_members:
  "e \<in> set (filteredCarriers ns rows) \<longleftrightarrow>
     \<not> inherited (name e) \<and> 5 \<le> length (carrier_group ns rows (name e))
     \<and> e = \<lparr> name = name e, avgDelay = group_mean ns rows (name e),
               shipments = length (carrier_group ns rows (name e)) \<rparr>"
proof -
  have "e \<in> set (filteredCarriers ns rows) \<longleftrightarrow>
          e \<in># mset (filteredCarriers ns rows)"
    by simp
  also have "\<dots> \<longleftrightarrow>
     (\<exists>k c. (k, c) \<in> set (entries (foldl (carrier_step ns) [] rows)) \<and> 5 \<le> count c
        \<and> e = \<lparr> name = k, avgDelay = js_div (totalDelay c) (Fin (real (count c))),
                  shipments = count c \<rparr>)"
    unfolding filteredCarriers_def mset_sort_by by auto
  also have "\<dots> \<longleftrightarrow>
     \<not> inherited (name e) \<and> 5 \<le> length (carrier_group ns rows (name e))
     \<and> e = \<lparr> name = name e, avgDelay = group_mean ns rows (name e),
               shipments = length (carrier_group ns rows (name e)) \<rparr>"
    unfolding carrier_entries group_mean_def by auto
  finally show ?thesis .
qed

lemma distinct_ranking: "distinct (map name (filteredCarriers ns rows))"
proof -
  let ?D = "entries (foldl (carrier_step ns) [] rows)"
  let ?R0 = "map (\<lambda>(k, e). \<lparr> name = k, avgDelay = js_div (totalDelay e) (Fin (real (count e))),
                          shipments = count e \<rparr>) (filter (\<lambda>(k, e). count e \<ge> 5) ?D)"
  have eq: "map name ?R0 = map fst (filter (\<lambda>(k, e). count e \<ge> 5) ?D)"
    by (simp add: split_def)
  have "distinct (map fst (filter (\<lambda>(k, e). count e \<ge> 5) ?D))"
    using distinct_carrier_entries [of ns rows] by (rule distinct_map_filter)
  then have "distinct (map name ?R0)"
    by (simp only: eq)
  moreover have "mset (map name (filteredCarriers ns rows)) = mset (map name ?R0)"
    unfolding filteredCarriers_def by (simp only: mset_map mset_sort_by)
  ultimately show ?thesis
    using mset_eq_imp_distinct_iff by blast
qed

text \<open>
  Claim C6, as amended. When no carrier is named like a member that every object
  inherits, the ranking lists each carrier once, lists exactly the carriers with five
  shipments or more, and gives each the number of its rows and the mean of their
  delays; when none of these means is \<open>NaN\<close>, they are in descending order.
\<close>

theorem carrier_ranking:
  assumes own: "\<forall>row\<in>set rows. \<not> inherited (key_of ns (carrier row))"
  shows "distinct (map name (filteredCarriers ns rows))
    \<and> (\<forall>k. k \<in> set (map name (filteredCarriers ns rows)) \<longleftrightarrow> 5 \<le> length (carrier_group ns rows k))
    \<and> (\<forall>e\<in>set (filteredCarriers ns rows).
          shipments e = length (carrier_group ns rows (name e))
          \<and> avgDelay e = group_mean ns rows (name e))
    \<and> ((\<forall>e\<in>set (filteredCarriers ns rows). avgDelay e \<noteq> NaN) \<longrightarrow>
          sorted_wrt (\<lambda>a b. js_ge (avgDelay a) (avgDelay b)) (filteredCarriers ns rows))"
proof -
  have inh: "\<not> inherited k" if "5 \<le> length (carrier_group ns rows k)" for k
  proof -
    from that have "carrier_group ns rows k \<noteq> []"
      by auto
    then obtain row where "row \<in> set (carrier_group ns rows k)"
      by (cases "carrier_group ns rows k") auto
    then have "row \<in> set rows" and "key_of ns (carrier row) = k"
      by (simp_all add: carrier_group_def)
    then show ?thesis using own by auto
  qed
  have names: "k \<in> set (map name (filteredCarriers ns rows)) \<longleftrightarrow> 5 \<le> length (carrier_group ns rows k)"
    for k
  proof
    assume "k \<in> set (map name (filteredCarriers ns rows))"
    then obtain e where "e \<in> set (filteredCarriers ns rows)" "name e = k" by auto
    then show "5 \<le> length (carrier_group ns rows k)"
      using ranking_members [of e ns rows] by simp
  next
    assume ge: "5 \<le> length (carrier_group ns rows k)"
    let ?e = "\<lparr> name = k, avgDelay = group_mean ns rows k,
                 shipments = length (carrier_group ns rows k) \<rparr>"
    have "?e \<in> set (filteredCarriers ns rows)"
      using ranking_members [of ?e ns rows] ge inh [OF ge] by simp
    then show "k \<in> set (map name (filteredCarriers ns rows))"
      by force
  qed
  have means: "shipments e = length (carrier_group ns rows (name e))
          \<and> avgDelay e = group_mean ns rows (name e)"
    if "e \<in> set (filteredCarriers ns rows)" for e
  proof -
    have "e = \<lparr> name = name e, avgDelay = group_mean ns rows (name e),
               shipments = length (carrier_group ns rows (name e)) \<rparr>"
      using that ranking_members [of e ns rows] by blast
    then show ?thesis
      by (metis carrier_avg.select_convs(2) carrier_avg.select_convs(3))
  qed
  have order: "sorted_wrt (\<lambda>a b. js_ge (avgDelay a) (avgDelay b)) (filteredCarriers ns rows)"
    if "\<forall>e\<in>set (filteredCarriers ns rows). avgDelay e \<noteq> NaN"
  proof -
    let ?xs = "map (\<lambda>(k, e). \<lparr> name = k, avgDelay = js_div (totalDelay e) (Fin (real (count e))),
                          shipments = count e \<rparr>)
          (filter (\<lambda>(k, e). count e \<ge> 5) (entries (foldl (carrier_step ns) [] rows)))"
    have "set ?xs = set (filteredCarriers ns rows)"
      unfolding filteredCarriers_def
      using mset_eq_setD [OF mset_sort_by [of "\<lambda>a b. js_sub (avgDelay b) (avgDelay a)" ?xs]] by simp
    then have "\<forall>x\<in>set ?xs. avgDelay x \<noteq> NaN"
      using that by simp
    then show ?thesis
      unfolding filteredCarriers_def by (rule sorted_sort_by)
  qed
  show ?thesis
    using distinct_ranking names means order by blast
qed

lemma ranking_rows_value:
  "filteredCarriers unused_ns ranking_rows =
     [\<lparr> name = ''B'', avgDelay = Fin 3, shipments = 5 \<rparr>,
      \<lparr> name = ''A'', avgDelay = Fin 2, shipments = 5 \<rparr>]"
  unfolding ranking_rows_def by code_simp

theorem carrier_ranking_witness:
  "map name (filteredCarriers unused_ns ranking_rows) = [''B'', ''A'']
   \<and> length (carrier_group unused_ns ranking_rows ''C'') = 1
   \<and> ''C'' \<notin> set (map name (filteredCarriers unused_ns ranking_rows))
   \<and> sorted_wrt (\<lambda>a b. js_ge (avgDelay a) (avgDelay b)) (filteredCarriers unused_ns ranking_rows)"
proof -
  have own: "\<forall>row\<in>set ranking_rows. \<not> inherited (key_of unused_ns (carrier row))"
    unfolding ranking_rows_def by code_simp
  have fin: "\<forall>e\<in>set (filteredCarriers unused_ns ranking_rows). avgDelay e \<noteq> NaN"
    by (simp add: ranking_rows_value)
  have c: "length (carrier_group unused_ns ranking_rows ''C'') = 1"
    unfolding ranking_rows_def by code_simp
  have ordered: "sorted_wrt (\<lambda>a b. js_ge (avgDelay a) (avgDelay b))
                   (filteredCarriers unused_ns ranking_rows)"
    using carrier_ranking [OF own] fin by blast
  have "''C'' \<in> set (map name (filteredCarriers unused_ns ranking_rows))
          \<longleftrightarrow> 5 \<le> length (carrier_group unused_ns ranking_rows ''C'')"
    using carrier_ranking [OF own] by blast
  then have excluded: "''C'' \<notin> set (map name (filteredCarriers unused_ns ranking_rows))"
    by (simp only: c)
  have names: "map name (filteredCarriers unused_ns ranking_rows) = [''B'', ''A'']"
    by (simp add: ranking_rows_value)
  show ?thesis
    using names c excluded ordered by blast
qed

text \<open>
  A carrier whose five delays include the texts \<open>Infinity\<close> and \<open>-Infinity\<close> has the
  mean \<open>NaN\<close>, which is in no order with the mean \<open>2\<close> listed after it. And the five
  shipments of a carrier named \<open>constructor\<close> are not listed at all.
\<close>

theorem carrier_ranking_counterexample:
  "map avgDelay (filteredCarriers unused_ns infinite_delay_rows) = [NaN, Fin 2]
   \<and> \<not> js_ge NaN (Fin 2) \<and> \<not> js_ge (Fin 2) NaN
   \<and> length (carrier_group unused_ns inherited_name_rows ''constructor'') = 5
   \<and> filteredCarriers unused_ns inherited_name_rows = []"
  unfolding infinite_delay_rows_def inherited_name_rows_def by code_simp

section \<open>The correlation coefficient\<close>



subsection \<open>The Cauchy-Schwarz inequality on lists\<close>





subsection \<open>The function on finite points\<close>












section \<open>The emissions estimate\<close>

text \<open>
  For a mode that names no inherited member, the estimate is the product of the
  distance, the factor of the mode (Road for any mode outside the table) and the tons,
  over \<open>1000\<close>; the row of the scenario gives \<open>1000\<close>.
\<close>

lemma estimate_formula:
  "js_le (actualEmissions row) (Fin 0) \<Longrightarrow> \<not> inherited (key_of ns (transport_mode row)) \<Longrightarrow>
     emissionsKg ns row =
       js_div (js_mul (js_mul (distanceKm row) (Fin (modeFactor (key_of ns (transport_mode row)))))
                      (tons row))
              (Fin 1000)"
  by (simp add: emissionsKg_def estimate_def factors_def modeFactor_def)

lemma estimate_scenario: "emissionsKg ns air_row = Fin 1000"
  by (simp add: air_row_def emissionsKg_def actualEmissions_def distanceKm_def weightKg_def tons_def
      transport_mode_def get_prop_def js_or_def num_def factors_def inherited_def estimate_def
      js_mul_def js_gt_def)

text \<open>
  Claim C8. A row with no emissions of its own whose mode is \<open>constructor\<close>, a mode the
  table of factors does not hold, is not estimated with the factor of Road: \<open>factors[mode]\<close>
  finds the inherited member, the default is not taken, and the estimate is \<open>NaN\<close>
  where the factor \<open>62\<close> gives \<open>62\<close>.
\<close>

theorem inherited_mode_estimate:
  "emissionsKg ns inherited_mode_row = NaN
   \<and> js_le (actualEmissions inherited_mode_row) (Fin 0)
   \<and> js_div (js_mul (js_mul (distanceKm inherited_mode_row) (Fin (modeFactor ''constructor'')))
                     (tons inherited_mode_row)) (Fin 1000) = Fin 62"
  by (simp add: inherited_mode_row_def emissionsKg_def actualEmissions_def distanceKm_def
      weightKg_def tons_def transport_mode_def get_prop_def js_or_def num_def factors_def
      inherited_def estimate_def js_mul_def js_gt_def modeFactor_def)

section \<open>The correlation sentence\<close>











end
